theory Spec2Isabelle
  imports Complex_Main
begin

section \<open>Python values, exceptions and the numpy fragment the task environment uses\<close>

text \<open>
  The task environment \<^verbatim>\<open>UAVFollowTrajectoryTaskEnv\<close> and its base class
  \<^verbatim>\<open>RobotSimEnv\<close> are embedded as pure functions. Floating-point numbers are read as
  reals; the one place where the source produces a NaN on purpose is kept as a value of its
  own (\<open>NaN\<close>). An exception of the source is the \<open>Inl\<close> branch of a result.
\<close>

datatype error = IndexError | ValueError | TypeError

definition bind_res :: "error + 'a \<Rightarrow> ('a \<Rightarrow> error + 'b) \<Rightarrow> error + 'b" where
  "bind_res m f = (case m of Inl e \<Rightarrow> Inl e | Inr x \<Rightarrow> f x)"

text \<open>
  \<^verbatim>\<open>self.collision_check\<close> is a property of the robot environment: a boolean or a
  scalar. \<open>truthy\<close> is what \<^verbatim>\<open>if v:\<close> tests, \<open>py_num\<close> the number it stands for in
  arithmetic.
\<close>

datatype pyval = PyBool bool | PyNum real

fun truthy :: "pyval \<Rightarrow> bool" where
  "truthy (PyBool b) = b"
| "truthy (PyNum r) = (r \<noteq> 0)"

fun py_num :: "pyval \<Rightarrow> real" where
  "py_num (PyBool b) = (if b then 1 else 0)"
| "py_num (PyNum r) = r"

datatype pyfloat = Fin real | NaN

fun pf_add :: "pyfloat \<Rightarrow> pyfloat \<Rightarrow> pyfloat" where
  "pf_add (Fin a) (Fin b) = Fin (a + b)"
| "pf_add _ _ = NaN"

fun pf_sub :: "pyfloat \<Rightarrow> pyfloat \<Rightarrow> pyfloat" where
  "pf_sub (Fin a) (Fin b) = Fin (a - b)"
| "pf_sub _ _ = NaN"

fun pf_mul :: "pyfloat \<Rightarrow> pyfloat \<Rightarrow> pyfloat" where
  "pf_mul (Fin a) (Fin b) = Fin (a * b)"
| "pf_mul _ _ = NaN"

text \<open>Every comparison with a NaN is false.\<close>

fun pf_less :: "pyfloat \<Rightarrow> pyfloat \<Rightarrow> bool" where
  "pf_less (Fin a) (Fin b) = (a < b)"
| "pf_less _ _ = False"

text \<open>Indexing a one-dimensional array with a constant, non-negative index.\<close>

definition py_index :: "'a list \<Rightarrow> nat \<Rightarrow> error + 'a" where
  "py_index xs i = (if i < length xs then Inr (xs ! i) else Inl IndexError)"

text \<open>The slice \<^verbatim>\<open>xs[i:j]\<close> with constants \<open>0 \<le> i \<le> j\<close>; a slice never raises.\<close>

definition py_slice :: "nat \<Rightarrow> nat \<Rightarrow> 'a list \<Rightarrow> 'a list" where
  "py_slice i j xs = drop i (take j xs)"

text \<open>
  An element-wise operation of two one-dimensional arrays, with numpy's broadcasting:
  equal lengths pair up, an array of length one is stretched, anything else raises
  \<^verbatim>\<open>ValueError\<close>.
\<close>

definition np_broadcast :: "('a \<Rightarrow> 'b \<Rightarrow> 'c) \<Rightarrow> 'a list \<Rightarrow> 'b list \<Rightarrow> error + 'c list" where
  "np_broadcast f xs ys =
     (if length xs = length ys then Inr (map2 f xs ys)
      else if length xs = 1 then Inr (map (\<lambda>y. f (hd xs) y) ys)
      else if length ys = 1 then Inr (map (\<lambda>x. f x (hd ys)) xs)
      else Inl ValueError)"

text \<open>\<^verbatim>\<open>np.dot\<close> of two one-dimensional arrays: the lengths must agree.\<close>

definition np_dot :: "real list \<Rightarrow> real list \<Rightarrow> error + real" where
  "np_dot xs ys =
     (if length xs = length ys then Inr (sum_list (map2 (*) xs ys)) else Inl ValueError)"

text \<open>\<^verbatim>\<open>np.linalg.norm\<close> of a one-dimensional array.\<close>

definition np_norm :: "real list \<Rightarrow> real" where
  "np_norm xs = sqrt (sum_list (map (\<lambda>x. x * x) xs))"

text \<open>\<^verbatim>\<open>np.all\<close> of a one-dimensional boolean array.\<close>

definition np_all :: "bool list \<Rightarrow> bool" where
  "np_all bs = foldr (\<and>) bs True"

text \<open>
  An array of dtype object, as numpy before 1.24 builds from a ragged sequence: each
  element is a number or an array of its own.
\<close>

datatype npobj = ObjNum real | ObjArr "real list"

fun obj_div :: "npobj \<Rightarrow> real \<Rightarrow> npobj" where
  "obj_div (ObjNum a) n = ObjNum (a / n)"
| "obj_div (ObjArr v) n = ObjArr (map (\<lambda>x. x / n) v)"

fun obj_mul :: "npobj \<Rightarrow> real \<Rightarrow> npobj" where
  "obj_mul (ObjNum a) b = ObjNum (a * b)"
| "obj_mul (ObjArr v) b = ObjArr (map (\<lambda>x. x * b) v)"

text \<open>
  What the libraries outside the repository do, taken as parameters:
  \<^item> \<open>euler_from_quaternion x y z w\<close> is \<^verbatim>\<open>tf.transformations.euler_from_quaternion\<close>,
    giving roll, pitch and yaw;
  \<^item> \<open>ragged_object_arrays\<close> tells the numpy generation: before 1.24 \<^verbatim>\<open>np.array\<close> of a
    ragged sequence is an array of dtype object, from 1.24 on it raises \<^verbatim>\<open>ValueError\<close>;
  \<^item> \<open>lines_382_394\<close> is the exception, if any, that lines 382 to 394 of the task
    environment raise on an object array before line 395 is reached.
\<close>

record ext =
  euler_from_quaternion :: "real \<Rightarrow> real \<Rightarrow> real \<Rightarrow> real \<Rightarrow> real \<times> real \<times> real"
  ragged_object_arrays :: bool
  lines_382_394 :: "npobj list \<Rightarrow> error option"

text \<open>\<^verbatim>\<open>np.array((s, v))\<close> for a scalar \<open>s\<close> and a one-dimensional array \<open>v\<close>.\<close>

definition np_array_pair :: "ext \<Rightarrow> real \<Rightarrow> real list \<Rightarrow> error + npobj list" where
  "np_array_pair lib s v =
     (if ragged_object_arrays lib then Inr [ObjNum s, ObjArr v] else Inl ValueError)"

section \<open>Messages, configuration and state\<close>

record point =
  pt_x :: real
  pt_y :: real
  pt_z :: real

record quaternion =
  q_w :: real
  q_x :: real
  q_y :: real
  q_z :: real

record pose =
  position :: point
  orientation :: quaternion

record twist =
  linear :: point
  angular :: point

text \<open>
  What one \<^verbatim>\<open>step\<close> or \<^verbatim>\<open>reset\<close> reads from the robot environment. The collision
  property is read once by \<^verbatim>\<open>_is_done\<close> and again by \<^verbatim>\<open>_compute_reward\<close>; each
  read is an input of its own.
\<close>

record 'img readings =
  pose :: pose
  velocity :: twist
  front_camera :: 'img
  collision_check_is_done :: pyval
  collision_check_reward :: pyval

text \<open>
  The attributes the task reads from \<^verbatim>\<open>self\<close> and never writes (the base task
  environment sets them from the parameter server), with the two parameters
  \<^verbatim>\<open>/mavros_gym/max_roll\<close> and \<^verbatim>\<open>/mavros_gym/max_pitch\<close> that \<^verbatim>\<open>drone_has_flipped\<close>
  looks up.
\<close>

record task_config =
  work_space_x_min :: real
  work_space_x_max :: real
  work_space_y_min :: real
  work_space_y_max :: real
  work_space_z_min :: real
  work_space_z_max :: real
  min_height :: real
  max_roll :: real
  max_pitch :: real
  desired_pose :: pose
  desired_pose_epsilon :: real
  closer_to_point_reward :: real
  collision_penalty :: real
  end_episode_points :: real
  geo_distance :: bool

record env_state =
  episode_num :: int
  cumulated_episode_reward :: real
  cumulated_reward :: real
  cumulated_steps :: int
  previous_distance_from_des_point :: real
  previous_difference_from_des_orientation :: pyfloat

record RLExperimentInfo =
  episode_number :: int
  episode_reward :: real

section \<open>The task environment\<close>

definition get_obs :: "'img readings \<Rightarrow> real list \<times> 'img" where
  "get_obs w =
     ([pt_x (position (pose w)), pt_y (position (pose w)), pt_z (position (pose w)),
       q_w (orientation (pose w)), q_x (orientation (pose w)),
       q_y (orientation (pose w)), q_z (orientation (pose w)),
       pt_x (linear (velocity w)), pt_y (linear (velocity w)), pt_z (linear (velocity w)),
       pt_x (angular (velocity w)), pt_y (angular (velocity w)), pt_z (angular (velocity w))],
      front_camera w)"

definition desired_pose_array :: "task_config \<Rightarrow> real list" where
  "desired_pose_array cfg =
     [pt_x (position (desired_pose cfg)), pt_y (position (desired_pose cfg)),
      pt_z (position (desired_pose cfg)),
      q_w (orientation (desired_pose cfg)), q_x (orientation (desired_pose cfg)),
      q_y (orientation (desired_pose cfg)), q_z (orientation (desired_pose cfg))]"

definition is_in_desired_pose :: "task_config \<Rightarrow> real list \<Rightarrow> real \<Rightarrow> error + bool" where
  "is_in_desired_pose cfg current_pose epsilon =
     (let desired_pose_plus = map (\<lambda>d. d + epsilon) (desired_pose_array cfg);
          desired_pose_minus = map (\<lambda>d. d - epsilon) (desired_pose_array cfg)
      in bind_res (np_broadcast (\<le>) current_pose desired_pose_plus) (\<lambda>le_plus.
           if np_all le_plus
           then bind_res (np_broadcast (>) current_pose desired_pose_minus) (\<lambda>gt_minus.
                  Inr (np_all gt_minus))
           else Inr False))"

definition is_inside_workspace :: "task_config \<Rightarrow> real list \<Rightarrow> error + bool" where
  "is_inside_workspace cfg current_position =
     bind_res (py_index current_position 0) (\<lambda>p0.
       if p0 > work_space_x_min cfg \<and> p0 \<le> work_space_x_max cfg
       then bind_res (py_index current_position 1) (\<lambda>p1.
              if p1 > work_space_y_min cfg \<and> p1 \<le> work_space_y_max cfg
              then bind_res (py_index current_position 2) (\<lambda>p2.
                     if p2 > work_space_z_min cfg \<and> p2 \<le> work_space_z_max cfg
                     then Inr True else Inr False)
              else Inr False)
       else Inr False)"

definition too_close_to_ground :: "task_config \<Rightarrow> real \<Rightarrow> bool" where
  "too_close_to_ground cfg current_position_z = (current_position_z < min_height cfg)"

definition drone_has_flipped :: "ext \<Rightarrow> task_config \<Rightarrow> real list \<Rightarrow> error + bool" where
  "drone_has_flipped lib cfg current_orientation =
     bind_res (py_index current_orientation 1) (\<lambda>o1.
     bind_res (py_index current_orientation 2) (\<lambda>o2.
     bind_res (py_index current_orientation 3) (\<lambda>o3.
     bind_res (py_index current_orientation 0) (\<lambda>o0.
       case euler_from_quaternion lib o1 o2 o3 o0 of (curr_roll, curr_pitch, curr_yaw) \<Rightarrow>
         if curr_roll > -1 * max_roll cfg \<and> curr_roll \<le> max_roll cfg
         then (if curr_pitch > -1 * max_pitch cfg \<and> curr_pitch \<le> max_pitch cfg
               then Inr False else Inr True)
         else Inr True))))"

definition get_distance_between_points :: "real list \<Rightarrow> real list \<Rightarrow> error + real" where
  "get_distance_between_points p_start p_end =
     bind_res (np_broadcast (-) p_start p_end) (\<lambda>d. Inr (np_norm d))"

definition get_distance_from_desired_point :: "task_config \<Rightarrow> point \<Rightarrow> error + real" where
  "get_distance_from_desired_point cfg current_position =
     (let curr_position = [pt_x current_position, pt_y current_position, pt_z current_position];
          des_position = [pt_x (position (desired_pose cfg)), pt_y (position (desired_pose cfg)),
                          pt_z (position (desired_pose cfg))]
      in get_distance_between_points curr_position des_position)"

text \<open>
  Lines 382 to 398 of the geodesic branch hold no \<^verbatim>\<open>return\<close> before line 398, and line
  395 calls \<^verbatim>\<open>np.array\<close> with an array in the place of the dtype, which raises
  \<^verbatim>\<open>TypeError\<close>: the rest of the branch ends in the exception of an earlier line or in
  that one.
\<close>

definition geodesic_rest :: "ext \<Rightarrow> npobj list \<Rightarrow> error + (pyfloat \<times> string list)" where
  "geodesic_rest lib o_product =
     (case lines_382_394 lib o_product of Some e \<Rightarrow> Inl e | None \<Rightarrow> Inl TypeError)"

text \<open>
  \<^verbatim>\<open>get_difference_between_orientations\<close>. The result is the value returned together with
  the \<^verbatim>\<open>rospy.logerr\<close> messages written on the way: the zero-norm guard of the geodesic
  branch writes one before it returns NaN, no other path writes any.
\<close>

definition get_difference_between_orientations ::
  "ext \<Rightarrow> task_config \<Rightarrow> real list \<Rightarrow> real list \<Rightarrow> error + (pyfloat \<times> string list)" where
  "get_difference_between_orientations lib cfg ostart o_end =
     (if geo_distance cfg then
        bind_res (np_dot ostart ostart) (\<lambda>n.
          if n > 0 then
            bind_res (py_index ostart 0) (\<lambda>o0.
            bind_res (np_array_pair lib o0 (map (\<lambda>x. -1 * x) (py_slice 1 4 ostart))) (\<lambda>a.
            let ostart_conj = map (\<lambda>c. obj_div c n) a in
            bind_res (np_broadcast obj_mul ostart_conj o_end) (\<lambda>o_product.
              geodesic_rest lib o_product)))
          else Inr (NaN,
                 [''can not compute the orientation difference of a quaternion with 0 norm'']))
      else
        bind_res (np_broadcast (-) ostart o_end) (\<lambda>ostart_minus_o_end.
        bind_res (np_broadcast (+) ostart o_end) (\<lambda>ostart_plus_o_end.
        bind_res (np_dot ostart_minus_o_end ostart_minus_o_end) (\<lambda>dm.
        bind_res (np_dot ostart_plus_o_end ostart_plus_o_end) (\<lambda>dp.
          let d_minus = sqrt dm; d_plus = sqrt dp
          in if d_minus < d_plus then Inr (Fin d_minus, []) else Inr (Fin d_plus, []))))))"

definition get_difference_from_desired_orientation ::
  "ext \<Rightarrow> task_config \<Rightarrow> quaternion \<Rightarrow> error + (pyfloat \<times> string list)" where
  "get_difference_from_desired_orientation lib cfg current_orientation =
     (let curr_orientation = [q_w current_orientation, q_x current_orientation,
                              q_y current_orientation, q_z current_orientation];
          des_orientation = [q_w (orientation (desired_pose cfg)), q_x (orientation (desired_pose cfg)),
                             q_y (orientation (desired_pose cfg)), q_z (orientation (desired_pose cfg))]
      in get_difference_between_orientations lib cfg curr_orientation des_orientation)"

text \<open>
  \<^verbatim>\<open>_is_done\<close>. The result is the value of the \<^verbatim>\<open>or\<close> chain, whose first operand
  is the collision reading itself, together with the \<^verbatim>\<open>rospy.logerr\<close> messages in the
  order they are written.
\<close>

definition is_done ::
  "ext \<Rightarrow> task_config \<Rightarrow> pyval \<Rightarrow> real list \<times> 'img \<Rightarrow> error + (pyval \<times> string list)" where
  "is_done lib cfg collision_check observations =
     (let current_pose = py_slice 0 7 (fst observations);
          current_position = py_slice 0 3 (fst observations);
          current_orientation = py_slice 3 7 (fst observations);
          has_collided = collision_check
      in bind_res (is_inside_workspace cfg current_position) (\<lambda>is_inside_workspace_now.
         bind_res (py_index current_position 2) (\<lambda>z.
         let too_close_to_grnd = too_close_to_ground cfg (-1 * z) in
         bind_res (drone_has_flipped lib cfg current_orientation) (\<lambda>drone_flipped.
         bind_res (is_in_desired_pose cfg current_pose (desired_pose_epsilon cfg))
           (\<lambda>has_reached_des_pose.
         let logerr =
               (if truthy has_collided then [''UAV has collided!''] else []) @
               (if \<not> is_inside_workspace_now then [''UAV is outside workspace!''] else []) @
               (if too_close_to_grnd then [''UAV is too_close_to_ground!''] else []) @
               (if drone_flipped then [''UAV has_flipped!''] else []) @
               (if has_reached_des_pose
                then [''UAV has_reached the desired pose! Congrats''] else []);
             episode_done =
               (if truthy has_collided then has_collided
                else PyBool (\<not> is_inside_workspace_now \<or> too_close_to_grnd \<or>
                             drone_flipped \<or> has_reached_des_pose))
         in Inr (episode_done, logerr))))))"

text \<open>
  \<^verbatim>\<open>_compute_reward\<close>. In the branch \<^verbatim>\<open>if not done\<close> the source assigns \<^verbatim>\<open>reward\<close>
  twice: under \<^verbatim>\<open>if self.collision_check\<close>, and then in both arms of the
  \<^verbatim>\<open>if\<close>/\<^verbatim>\<open>else\<close> on the distance. The two bindings of \<open>reward\<close> below are these two
  assignments, in order. The logging calls of this method are left out, and the messages
  the orientation distance wrote are not part of what it returns.
\<close>

definition compute_reward ::
  "ext \<Rightarrow> task_config \<Rightarrow> env_state \<Rightarrow> pyval \<Rightarrow> real list \<times> 'img \<Rightarrow> pyval
     \<Rightarrow> error + (real \<times> env_state)" where
  "compute_reward lib cfg st collision_check observations done =
     bind_res (py_index (fst observations) 0) (\<lambda>x0.
     bind_res (py_index (fst observations) 1) (\<lambda>x1.
     bind_res (py_index (fst observations) 2) (\<lambda>x2.
     bind_res (py_index (fst observations) 3) (\<lambda>x3.
     bind_res (py_index (fst observations) 4) (\<lambda>x4.
     bind_res (py_index (fst observations) 5) (\<lambda>x5.
     bind_res (py_index (fst observations) 6) (\<lambda>x6.
     let current_pose = \<lparr>position = \<lparr>pt_x = x0, pt_y = x1, pt_z = x2\<rparr>,
                         orientation = \<lparr>q_w = x3, q_x = x4, q_y = x5, q_z = x6\<rparr>\<rparr> in
     bind_res (get_distance_from_desired_point cfg (position current_pose))
       (\<lambda>distance_from_des_point.
     bind_res (get_difference_from_desired_orientation lib cfg (orientation current_pose))
       (\<lambda>(difference_from_des_orientation, logerr).
     let distance_difference =
           pf_add (Fin (distance_from_des_point - previous_distance_from_des_point st))
             (pf_mul (Fin 2)
                (pf_sub difference_from_des_orientation
                   (previous_difference_from_des_orientation st))) in
     bind_res
       (if \<not> truthy done then
          (let reward = (if truthy collision_check then Some (py_num collision_check) else None);
               reward = (if pf_less distance_difference (Fin 0)
                         then closer_to_point_reward cfg else 0)
           in Inr reward)
        else
          (if truthy collision_check then Inr (collision_penalty cfg)
           else bind_res (is_in_desired_pose cfg (py_slice 0 7 (fst observations)) 0.5)
                  (\<lambda>reached. if reached then Inr (end_episode_points cfg)
                             else Inr (-1 * end_episode_points cfg))))
       (\<lambda>reward.
          Inr (reward,
               st\<lparr>previous_distance_from_des_point := distance_from_des_point,
                  previous_difference_from_des_orientation := difference_from_des_orientation,
                  cumulated_reward := cumulated_reward st + reward,
                  cumulated_steps := cumulated_steps st + 1\<rparr>)))))))))))"

text \<open>
  \<^verbatim>\<open>_init_env_variables\<close>, after the arming and take-off requests, which belong to the robot
  environment: \<open>w\<close> is what \<^verbatim>\<open>self.pose\<close> gives at that moment.
\<close>

definition init_env_variables ::
  "ext \<Rightarrow> task_config \<Rightarrow> env_state \<Rightarrow> 'img readings \<Rightarrow> error + env_state" where
  "init_env_variables lib cfg st w =
     (let st = st\<lparr>cumulated_reward := 0\<rparr>;
          curr_pose = pose w
      in bind_res (get_distance_from_desired_point cfg (position curr_pose)) (\<lambda>d.
         let st = st\<lparr>previous_distance_from_des_point := d\<rparr> in
         bind_res (get_difference_from_desired_orientation lib cfg (orientation curr_pose))
           (\<lambda>(od, logerr).
         Inr (st\<lparr>previous_difference_from_des_orientation := od\<rparr>))))"

section \<open>The base environment\<close>

definition publish_reward_topic :: "real \<Rightarrow> int \<Rightarrow> RLExperimentInfo" where
  "publish_reward_topic reward episode_number' =
     \<lparr>episode_number = episode_number', episode_reward = reward\<rparr>"

text \<open>\<^verbatim>\<open>_update_episode\<close>: the message it publishes and the state it leaves.\<close>

definition update_episode :: "env_state \<Rightarrow> RLExperimentInfo \<times> env_state" where
  "update_episode st =
     (publish_reward_topic (cumulated_episode_reward st) (episode_num st),
      st\<lparr>episode_num := episode_num st + 1, cumulated_episode_reward := 0\<rparr>)"

text \<open>
  \<^verbatim>\<open>step\<close>: \<open>w\<close> is what the robot environment gives once the action has been applied and
  the simulation paused again. The result is \<open>(obs, reward, done)\<close> and the new state;
  \<^verbatim>\<open>info\<close> is always the empty dictionary.
\<close>

definition step ::
  "ext \<Rightarrow> task_config \<Rightarrow> env_state \<Rightarrow> 'img readings
     \<Rightarrow> error + (((real list \<times> 'img) \<times> real \<times> pyval) \<times> env_state)" where
  "step lib cfg st w =
     (let obs = get_obs w in
      bind_res (is_done lib cfg (collision_check_is_done w) obs) (\<lambda>(done, logerr).
      bind_res (compute_reward lib cfg st (collision_check_reward w) obs done) (\<lambda>(reward, st).
      Inr ((obs, reward, done),
           st\<lparr>cumulated_episode_reward := cumulated_episode_reward st + reward\<rparr>))))"

text \<open>
  \<^verbatim>\<open>reset\<close>: \<open>w_init\<close> is read by \<^verbatim>\<open>_init_env_variables\<close>, \<open>w_obs\<close> by the closing
  \<^verbatim>\<open>_get_obs\<close>. The result is the observation, the message published and the new state.
\<close>

definition reset ::
  "ext \<Rightarrow> task_config \<Rightarrow> env_state \<Rightarrow> 'img readings \<Rightarrow> 'img readings
     \<Rightarrow> error + ((real list \<times> 'img) \<times> RLExperimentInfo \<times> env_state)" where
  "reset lib cfg st w_init w_obs =
     bind_res (init_env_variables lib cfg st w_init) (\<lambda>st.
     case update_episode st of (msg, st) \<Rightarrow> Inr (get_obs w_obs, msg, st))"

text \<open>\<open>steps\<close> calls \<^verbatim>\<open>step\<close> once for each reading and collects the rewards returned.\<close>

fun steps ::
  "ext \<Rightarrow> task_config \<Rightarrow> env_state \<Rightarrow> 'img readings list \<Rightarrow> error + (real list \<times> env_state)" where
  "steps lib cfg st [] = Inr ([], st)"
| "steps lib cfg st (w # ws) =
     bind_res (step lib cfg st w) (\<lambda>(r, st).
     bind_res (steps lib cfg st ws) (\<lambda>(rs, st). Inr (fst (snd r) # rs, st)))"

section \<open>A concrete configuration\<close>

text \<open>
  A level hover one metre above the ground in a north-east-down frame, two metres short of
  the desired pose; \<open>example_lib\<close> reads roll, pitch and yaw off the vector part by the
  small-angle rule.
\<close>

definition example_lib :: ext where
  "example_lib =
     \<lparr>euler_from_quaternion = (\<lambda>x y z w. (2 * x, 2 * y, 2 * z)),
      ragged_object_arrays = True,
      lines_382_394 = (\<lambda>a. None)\<rparr>"

definition example_config :: task_config where
  "example_config =
     \<lparr>work_space_x_min = -10, work_space_x_max = 10,
      work_space_y_min = -10, work_space_y_max = 10,
      work_space_z_min = -5, work_space_z_max = 0,
      min_height = 1 / 2, max_roll = 3 / 10, max_pitch = 3 / 10,
      desired_pose = \<lparr>position = \<lparr>pt_x = 0, pt_y = 0, pt_z = -2\<rparr>,
                      orientation = \<lparr>q_w = 1, q_x = 0, q_y = 0, q_z = 0\<rparr>\<rparr>,
      desired_pose_epsilon = 1 / 20,
      closer_to_point_reward = 10, collision_penalty = -100, end_episode_points = 1000,
      geo_distance = False\<rparr>"

definition example_state :: env_state where
  "example_state =
     \<lparr>episode_num = 1, cumulated_episode_reward = 0, cumulated_reward = 0,
      cumulated_steps = 0, previous_distance_from_des_point = 2,
      previous_difference_from_des_orientation = Fin 0\<rparr>"

definition example_readings :: "unit readings" where
  "example_readings =
     \<lparr>pose = \<lparr>position = \<lparr>pt_x = 0, pt_y = 0, pt_z = -1\<rparr>,
              orientation = \<lparr>q_w = 1, q_x = 0, q_y = 0, q_z = 0\<rparr>\<rparr>,
      velocity = \<lparr>linear = \<lparr>pt_x = 0, pt_y = 0, pt_z = 0\<rparr>,
                  angular = \<lparr>pt_x = 0, pt_y = 0, pt_z = 0\<rparr>\<rparr>,
      front_camera = (),
      collision_check_is_done = PyBool False,
      collision_check_reward = PyBool False\<rparr>"

text \<open>The bounds of the workspace scenario: \<open>x\<close> and \<open>y\<close> in \<open>(0, 10]\<close>, \<open>z\<close> in \<open>(0, 5]\<close>.\<close>

definition scenario_bounds :: task_config where
  "scenario_bounds =
     example_config\<lparr>work_space_x_min := 0, work_space_x_max := 10,
                    work_space_y_min := 0, work_space_y_max := 10,
                    work_space_z_min := 0, work_space_z_max := 5\<rparr>"

text \<open>A level hover in the middle of the scenario's workspace.\<close>

definition scenario_readings :: "unit readings" where
  "scenario_readings =
     example_readings\<lparr>pose := \<lparr>position = \<lparr>pt_x = 5, pt_y = 5, pt_z = 5 / 2\<rparr>,
                               orientation = \<lparr>q_w = 1, q_x = 0, q_y = 0, q_z = 0\<rparr>\<rparr>\<rparr>"

section \<open>Evaluation rules\<close>

lemma bind_res_simps [simp]:
  "bind_res (Inl e) f = Inl e"
  "bind_res (Inr x) f = f x"
  by (simp_all add: bind_res_def)

lemma py_index_Cons [simp]:
  "py_index (x # xs) 0 = Inr x"
  "py_index (x # xs) (Suc n) = py_index xs n"
  "py_index [] n = Inl IndexError"
  by (simp_all add: py_index_def)

lemma py_index_numeral [simp]:
  "py_index (x # xs) (numeral k) = py_index xs (pred_numeral k)"
  by (simp add: py_index_def numeral_eq_Suc)

lemma py_index_one [simp]: "py_index (x # xs) 1 = py_index xs 0"
  by (simp add: py_index_def)

lemma np_all_simps [simp]:
  "np_all [] = True"
  "np_all (b # bs) = (b \<and> np_all bs)"
  by (simp_all add: np_all_def)

lemma length_ge_7:
  "7 \<le> length xs \<Longrightarrow> \<exists>a b c d e f g r. xs = a # b # c # d # e # f # g # r"
  by (auto simp: eval_nat_numeral Suc_le_length_iff)

lemma length_4: "length xs = 4 \<Longrightarrow> \<exists>a b c d. xs = [a, b, c, d]"
  by (auto simp: eval_nat_numeral length_Suc_conv)

section \<open>The workspace test\<close>

lemma is_inside_workspace_3:
  "is_inside_workspace cfg [x, y, z] =
     Inr (x > work_space_x_min cfg \<and> x \<le> work_space_x_max cfg \<and>
          y > work_space_y_min cfg \<and> y \<le> work_space_y_max cfg \<and>
          z > work_space_z_min cfg \<and> z \<le> work_space_z_max cfg)"
  by (auto simp: is_inside_workspace_def)

text \<open>
  C8. For every position \<open>(x, y, z)\<close> and all bounds, \<open>is_inside_workspace\<close> returns true
  exactly when each component is strictly above the minimum and at most the maximum of its
  axis. With \<open>x, y\<close> in \<open>(0, 10]\<close> and \<open>z\<close> in \<open>(0, 5]\<close>: \<open>(5, 5, 2.5)\<close> is inside,
  \<open>(0, 5, 2.5)\<close> is outside and \<open>(10, 5, 2.5)\<close> is inside.
\<close>

theorem is_inside_workspace_iff:
  "is_inside_workspace cfg [x, y, z] =
     Inr (x > work_space_x_min cfg \<and> x \<le> work_space_x_max cfg \<and>
          y > work_space_y_min cfg \<and> y \<le> work_space_y_max cfg \<and>
          z > work_space_z_min cfg \<and> z \<le> work_space_z_max cfg) \<and>
   is_inside_workspace scenario_bounds [5, 5, 5 / 2] = Inr True \<and>
   is_inside_workspace scenario_bounds [0, 5, 5 / 2] = Inr False \<and>
   is_inside_workspace scenario_bounds [10, 5, 5 / 2] = Inr True"
  by (auto simp: is_inside_workspace_def scenario_bounds_def)

theorem is_inside_workspace_iff_witness:
  "is_inside_workspace (scenario_bounds\<lparr>work_space_z_max := 2\<rparr>) [10, 5, 5 / 2] = Inr False"
  using is_inside_workspace_iff [of "scenario_bounds\<lparr>work_space_z_max := 2\<rparr>" 10 5 "5 / 2"]
  by (simp add: scenario_bounds_def)

section \<open>The termination decision\<close>

lemma drone_has_flipped_4:
  "drone_has_flipped lib cfg [w, x, y, z] =
     Inr (case euler_from_quaternion lib x y z w of (roll, pitch, yaw) \<Rightarrow>
            \<not> (roll > - max_roll cfg \<and> roll \<le> max_roll cfg \<and>
               pitch > - max_pitch cfg \<and> pitch \<le> max_pitch cfg))"
  by (auto simp: drone_has_flipped_def split: prod.splits)

lemma is_in_desired_pose_7:
  "is_in_desired_pose cfg [a, b, c, d, e, f, g] eps =
     Inr (np_all (map2 (\<le>) [a, b, c, d, e, f, g] (map (\<lambda>d. d + eps) (desired_pose_array cfg))) \<and>
          np_all (map2 (>) [a, b, c, d, e, f, g] (map (\<lambda>d. d - eps) (desired_pose_array cfg))))"
  by (auto simp: is_in_desired_pose_def desired_pose_array_def np_broadcast_def Let_def)

text \<open>
  C2. For every observation (of at least the seven pose components) and every collision
  reading, \<open>is_done\<close> evaluates all five flags: the workspace test, the flip test and the
  goal test each return, every flag that holds is logged whatever the other flags are, and
  the decision is true exactly when the collision reading is true, or the position is not
  inside the workspace, or the drone is too close to the ground, or has flipped, or has
  reached the desired pose.
\<close>

theorem is_done_or_of_five_flags:
  assumes "7 \<le> length (fst observations)"
  shows "\<exists>inside flipped reached episode_done logerr.
     is_inside_workspace cfg (py_slice 0 3 (fst observations)) = Inr inside \<and>
     drone_has_flipped lib cfg (py_slice 3 7 (fst observations)) = Inr flipped \<and>
     is_in_desired_pose cfg (py_slice 0 7 (fst observations)) (desired_pose_epsilon cfg)
       = Inr reached \<and>
     is_done lib cfg collision_check observations = Inr (episode_done, logerr) \<and>
     truthy episode_done =
       (truthy collision_check \<or> \<not> inside \<or>
        too_close_to_ground cfg (- (fst observations ! 2)) \<or> flipped \<or> reached) \<and>
     logerr =
       (if truthy collision_check then [''UAV has collided!''] else []) @
       (if \<not> inside then [''UAV is outside workspace!''] else []) @
       (if too_close_to_ground cfg (- (fst observations ! 2))
        then [''UAV is too_close_to_ground!''] else []) @
       (if flipped then [''UAV has_flipped!''] else []) @
       (if reached then [''UAV has_reached the desired pose! Congrats''] else [])"
proof -
  from assms obtain a b c d e f g r where xs: "fst observations = a # b # c # d # e # f # g # r"
    using length_ge_7 by blast
  obtain inside where i: "is_inside_workspace cfg [a, b, c] = Inr inside"
    using is_inside_workspace_3 by blast
  obtain flipped where fl: "drone_has_flipped lib cfg [d, e, f, g] = Inr flipped"
    using drone_has_flipped_4 by blast
  obtain reached where re:
    "is_in_desired_pose cfg [a, b, c, d, e, f, g] (desired_pose_epsilon cfg) = Inr reached"
    using is_in_desired_pose_7 by blast
  show ?thesis
    using i fl re by (simp add: xs is_done_def py_slice_def Let_def)
qed

theorem is_done_or_of_five_flags_witness:
  "7 \<le> length (fst (get_obs example_readings)) \<and>
   (\<exists>episode_done.
      is_done example_lib example_config (PyNum 3) (get_obs example_readings)
        = Inr (episode_done, [''UAV has collided!'']) \<and> truthy episode_done)"
proof -
  have h: "7 \<le> length (fst (get_obs example_readings))"
    by (simp add: get_obs_def)
  show ?thesis
    using h is_done_or_of_five_flags [OF h, of example_config example_lib "PyNum 3"]
    by (auto simp: get_obs_def example_readings_def example_config_def example_lib_def
        py_slice_def is_inside_workspace_3 drone_has_flipped_4 is_in_desired_pose_7
        desired_pose_array_def too_close_to_ground_def)
qed

section \<open>The orientation distance\<close>

lemma map2_same: "map2 f xs xs = map (\<lambda>x. f x x) xs"
  by (induction xs) simp_all

lemma np_dot_self [simp]: "np_dot xs xs = Inr (sum_list (map (\<lambda>x. x * x) xs))"
  by (simp add: np_dot_def map2_same)

lemma sumsq_nonneg: "0 \<le> sum_list (map (\<lambda>x::real. x * x) xs)"
  by (induction xs) simp_all

lemma np_norm_nonneg: "0 \<le> np_norm xs"
  by (simp add: np_norm_def sumsq_nonneg)

lemma np_norm_nonzero_iff: "np_norm xs \<noteq> 0 \<longleftrightarrow> 0 < sum_list (map (\<lambda>x. x * x) xs)"
  using sumsq_nonneg [of xs] by (auto simp: np_norm_def)

text \<open>
  C10. In geodesic mode, for every four-component \<open>ostart\<close> of non-zero norm,
  \<open>get_difference_between_orientations\<close> raises and returns no distance, whatever \<open>o_end\<close>
  is and whichever numpy generation runs; for a four-component \<open>o_end\<close> the exception is
  \<^verbatim>\<open>ValueError\<close>, raised where the conjugate is built or where it is multiplied with
  \<open>o_end\<close>.
\<close>

theorem geodesic_nonzero_start_raises:
  assumes "geo_distance cfg" and "length ostart = 4" and "np_norm ostart \<noteq> 0"
  shows "(\<exists>e. get_difference_between_orientations lib cfg ostart o_end = Inl e) \<and>
         (length o_end = 4 \<longrightarrow>
            get_difference_between_orientations lib cfg ostart o_end = Inl ValueError)"
proof -
  from assms(2) obtain a b c d where os: "ostart = [a, b, c, d]"
    using length_4 by blast
  from assms(3) have pos: "0 < sum_list (map (\<lambda>x. x * x) ostart)"
    by (simp add: np_norm_nonzero_iff)
  show ?thesis
    using assms(1) pos
    by (auto simp: get_difference_between_orientations_def os np_array_pair_def
        np_broadcast_def geodesic_rest_def py_slice_def Let_def split: option.splits)
qed

theorem geodesic_nonzero_start_raises_witness:
  "geo_distance (example_config\<lparr>geo_distance := True\<rparr>) \<and>
   length [1 / 2, 1 / 2, 1 / 2, 1 / 2 :: real] = 4 \<and>
   np_norm [1 / 2, 1 / 2, 1 / 2, 1 / 2] \<noteq> 0 \<and>
   get_difference_between_orientations (example_lib\<lparr>ragged_object_arrays := False\<rparr>)
     (example_config\<lparr>geo_distance := True\<rparr>) [1 / 2, 1 / 2, 1 / 2, 1 / 2] [1, 0, 0, 0]
     = Inl ValueError"
proof -
  have g: "geo_distance (example_config\<lparr>geo_distance := True\<rparr>)"
    by simp
  have l: "length [1 / 2, 1 / 2, 1 / 2, 1 / 2 :: real] = 4"
    by simp
  have n: "np_norm [1 / 2, 1 / 2, 1 / 2, 1 / 2] \<noteq> 0"
    by (simp add: np_norm_def)
  show ?thesis
    using g l n
      geodesic_nonzero_start_raises [OF g l n,
        of "example_lib\<lparr>ragged_object_arrays := False\<rparr>" "[1, 0, 0, 0]"]
    by simp
qed

text \<open>
  C5, as the code has it. In geodesic mode a start quaternion of zero norm raises nothing:
  \<open>get_difference_between_orientations\<close> writes the error message
  \<^verbatim>\<open>can not compute the orientation difference of a quaternion with 0 norm\<close> to the log and
  returns NaN, and \<open>get_difference_from_desired_orientation\<close> hands that NaN, with that one
  message written, to the reward computation or the reset that called it.
\<close>

theorem geodesic_zero_norm_returns_nan:
  assumes "geo_distance cfg" and "np_norm ostart = 0"
  shows "get_difference_between_orientations lib cfg ostart o_end =
           Inr (NaN, [''can not compute the orientation difference of a quaternion with 0 norm'']) \<and>
         get_difference_from_desired_orientation lib cfg \<lparr>q_w = 0, q_x = 0, q_y = 0, q_z = 0\<rparr> =
           Inr (NaN, [''can not compute the orientation difference of a quaternion with 0 norm''])"
  using assms np_norm_nonzero_iff [of ostart]
  by (simp add: get_difference_between_orientations_def
      get_difference_from_desired_orientation_def)

theorem geodesic_zero_norm_returns_nan_witness:
  "geo_distance (example_config\<lparr>geo_distance := True\<rparr>) \<and> np_norm [0, 0, 0, 0] = 0 \<and>
   get_difference_between_orientations example_lib (example_config\<lparr>geo_distance := True\<rparr>)
     [0, 0, 0, 0] [0, 1, 0, 0] =
     Inr (NaN, [''can not compute the orientation difference of a quaternion with 0 norm''])"
proof -
  have g: "geo_distance (example_config\<lparr>geo_distance := True\<rparr>)"
    by simp
  have n: "np_norm [0, 0, 0, 0] = 0"
    by (simp add: np_norm_def)
  show ?thesis
    using g n geodesic_zero_norm_returns_nan [OF g n, of example_lib "[0, 1, 0, 0]"]
    by simp
qed

text \<open>
  C5 as stated fails: with the zero quaternion as start and the identity as end, the
  geodesic branch writes its message and returns NaN instead of raising.
\<close>

theorem geodesic_zero_norm_counterexample:
  "get_difference_between_orientations example_lib (example_config\<lparr>geo_distance := True\<rparr>)
     [0, 0, 0, 0] [1, 0, 0, 0] =
     Inr (NaN, [''can not compute the orientation difference of a quaternion with 0 norm''])"
  by (simp add: get_difference_between_orientations_def)

lemma absolute_unfold:
  assumes "\<not> geo_distance cfg"
  shows "get_difference_between_orientations lib cfg a b =
     bind_res (np_broadcast (-) a b) (\<lambda>m.
     bind_res (np_broadcast (+) a b) (\<lambda>p.
       if np_norm m < np_norm p then Inr (Fin (np_norm m), [])
       else Inr (Fin (np_norm p), [])))"
  using assms
  by (simp add: get_difference_between_orientations_def np_norm_def Let_def cong: if_cong)

lemma np_norm_map2_sub:
  "length xs = length ys \<Longrightarrow> np_norm (map2 (-) xs ys) = np_norm (map2 (-) ys xs)"
  unfolding np_norm_def
  by (induction xs ys rule: list_induct2) (simp_all add: algebra_simps)

lemma np_norm_map2_add:
  "length xs = length ys \<Longrightarrow> np_norm (map2 (+) xs ys) = np_norm (map2 (+) ys xs)"
  unfolding np_norm_def
  by (induction xs ys rule: list_induct2) (simp_all add: algebra_simps)

lemma np_norm_map_sub: "np_norm (map (\<lambda>y. a - y) ys) = np_norm (map (\<lambda>y. y - a) ys)"
  unfolding np_norm_def
  by (induction ys) (simp_all add: algebra_simps)

lemma np_norm_map_add: "np_norm (map (\<lambda>y. a + y) ys) = np_norm (map (\<lambda>y. y + a) ys)"
  unfolding np_norm_def
  by (induction ys) (simp_all add: algebra_simps)

lemma absolute_symmetric:
  assumes "\<not> geo_distance cfg"
  shows "get_difference_between_orientations lib cfg a b =
         get_difference_between_orientations lib cfg b a"
proof -
  consider (eq) "length a = length b"
    | (left) "length a \<noteq> length b" "length a = 1"
    | (right) "length a \<noteq> length b" "length a \<noteq> 1" "length b = 1"
    | (bad) "length a \<noteq> length b" "length a \<noteq> 1" "length b \<noteq> 1"
    by blast
  then show ?thesis
  proof cases
    case eq
    then show ?thesis
      using np_norm_map2_sub [OF eq] np_norm_map2_add [OF eq]
      by (simp add: absolute_unfold [OF assms] np_broadcast_def)
  next
    case left
    then show ?thesis
      using np_norm_map_sub [of "hd a" b] np_norm_map_add [of "hd a" b]
      by (simp add: absolute_unfold [OF assms] np_broadcast_def)
  next
    case right
    then show ?thesis
      using np_norm_map_sub [of "hd b" a] np_norm_map_add [of "hd b" a]
      by (simp add: absolute_unfold [OF assms] np_broadcast_def)
  next
    case bad
    then show ?thesis
      by (simp add: absolute_unfold [OF assms] np_broadcast_def)
  qed
qed

lemma np_norm_sub_self: "np_norm (map2 (-) xs xs) = 0"
  unfolding np_norm_def by (induction xs) simp_all

lemma np_norm_add_neg: "np_norm (map2 (+) xs (map uminus xs)) = 0"
  unfolding np_norm_def by (induction xs) simp_all

lemma absolute_self:
  assumes "\<not> geo_distance cfg"
  shows "get_difference_between_orientations lib cfg a a = Inr (Fin 0, [])"
  using np_norm_nonneg [of "map2 (+) a a"]
  by (simp add: absolute_unfold [OF assms] np_broadcast_def np_norm_sub_self)

lemma absolute_neg:
  assumes "\<not> geo_distance cfg"
  shows "get_difference_between_orientations lib cfg a (map uminus a) = Inr (Fin 0, [])"
  using np_norm_nonneg [of "map2 (-) a (map uminus a)"]
  by (simp add: absolute_unfold [OF assms] np_broadcast_def np_norm_add_neg)

text \<open>
  In absolute mode the orientation distance is symmetric, the distance of a quaternion to
  itself is \<open>0\<close>, and so is its distance to its negation; no message is written.
\<close>

lemma absolute_distance_properties:
  assumes "\<not> geo_distance cfg"
  shows "get_difference_between_orientations lib cfg a b =
           get_difference_between_orientations lib cfg b a \<and>
         get_difference_between_orientations lib cfg a a = Inr (Fin 0, []) \<and>
         get_difference_between_orientations lib cfg a (map uminus a) = Inr (Fin 0, [])"
  using absolute_symmetric [OF assms] absolute_self [OF assms] absolute_neg [OF assms]
  by simp

text \<open>
  C4, on the code. In geodesic mode the distance of the unit quaternion \<open>(0, 1, 0, 0)\<close> to
  itself is not \<open>0\<close>: the call raises \<^verbatim>\<open>ValueError\<close> under either numpy generation, where
  the conjugate is built or where it is multiplied with the end quaternion.
\<close>

theorem geodesic_self_distance_raises:
  "get_difference_between_orientations example_lib (example_config\<lparr>geo_distance := True\<rparr>)
     [0, 1, 0, 0] [0, 1, 0, 0] = Inl ValueError \<and>
   get_difference_between_orientations (example_lib\<lparr>ragged_object_arrays := False\<rparr>)
     (example_config\<lparr>geo_distance := True\<rparr>) [0, 1, 0, 0] [0, 1, 0, 0] = Inl ValueError"
  by (simp add: get_difference_between_orientations_def np_array_pair_def np_broadcast_def
      example_lib_def py_slice_def)

section \<open>The reward\<close>

lemma get_distance_from_desired_point_value:
  "get_distance_from_desired_point cfg p =
     Inr (np_norm [pt_x p - pt_x (position (desired_pose cfg)),
                   pt_y p - pt_y (position (desired_pose cfg)),
                   pt_z p - pt_z (position (desired_pose cfg))])"
  by (simp add: get_distance_from_desired_point_def get_distance_between_points_def
      np_broadcast_def)

lemma absolute_orientation_returns:
  assumes "\<not> geo_distance cfg"
  shows "\<exists>d. get_difference_from_desired_orientation lib cfg q = Inr (Fin d, [])"
  by (auto simp: get_difference_from_desired_orientation_def absolute_unfold [OF assms]
      np_broadcast_def Let_def)

lemma compute_reward_Inr:
  assumes xs: "fst observations = a # b # c # d # e # f # g # r"
    and od: "get_difference_from_desired_orientation lib cfg
               \<lparr>q_w = d, q_x = e, q_y = f, q_z = g\<rparr> = Inr (od, logerr)"
  shows "compute_reward lib cfg st cc observations done =
     (let dis = np_norm [a - pt_x (position (desired_pose cfg)),
                         b - pt_y (position (desired_pose cfg)),
                         c - pt_z (position (desired_pose cfg))];
          reward =
            (if \<not> truthy done then
               (if pf_less
                     (pf_add (Fin (dis - previous_distance_from_des_point st))
                        (pf_mul (Fin 2)
                           (pf_sub od (previous_difference_from_des_orientation st))))
                     (Fin 0)
                then closer_to_point_reward cfg else 0)
             else if truthy cc then collision_penalty cfg
             else if np_all (map2 (\<le>) [a, b, c, d, e, f, g]
                               (map (\<lambda>d. d + 1 / 2) (desired_pose_array cfg))) \<and>
                     np_all (map2 (>) [a, b, c, d, e, f, g]
                               (map (\<lambda>d. d - 1 / 2) (desired_pose_array cfg)))
             then end_episode_points cfg else - end_episode_points cfg)
      in Inr (reward,
              st\<lparr>previous_distance_from_des_point := dis,
                 previous_difference_from_des_orientation := od,
                 cumulated_reward := cumulated_reward st + reward,
                 cumulated_steps := cumulated_steps st + 1\<rparr>))"
  using od
  by (simp add: compute_reward_def xs get_distance_from_desired_point_value Let_def
      py_slice_def is_in_desired_pose_7)

lemma compute_reward_Inl:
  assumes xs: "fst observations = a # b # c # d # e # f # g # r"
    and od: "get_difference_from_desired_orientation lib cfg
               \<lparr>q_w = d, q_x = e, q_y = f, q_z = g\<rparr> = Inl err"
  shows "compute_reward lib cfg st cc observations done = Inl err"
  using od
  by (simp add: compute_reward_def xs get_distance_from_desired_point_value Let_def)

lemma example_orientation_difference:
  "get_difference_from_desired_orientation example_lib example_config
     \<lparr>q_w = 1, q_x = 0, q_y = 0, q_z = 0\<rparr> = Inr (Fin 0, [])"
  by (simp add: get_difference_from_desired_orientation_def example_config_def
      get_difference_between_orientations_def np_broadcast_def)

lemma nonterminal_reward_ignores_collision:
  assumes "\<not> truthy done"
  shows "compute_reward lib cfg st c1 observations done =
         compute_reward lib cfg st c2 observations done"
  using assms by (simp add: compute_reward_def Let_def)

text \<open>
  C1, on the code. With \<open>done\<close> false and the collision reading set, the reward returned is
  \<open>closer_to_point_reward\<close>: the distance branch runs after the collision assignment and
  overwrites it, so the reward is not the collision value.
\<close>

theorem nonterminal_collision_reward_overwritten:
  "compute_reward example_lib example_config example_state (PyBool True)
     (get_obs example_readings) (PyBool False)
   = Inr (closer_to_point_reward example_config,
          example_state\<lparr>previous_distance_from_des_point := 1,
                        previous_difference_from_des_orientation := Fin 0,
                        cumulated_reward := 10, cumulated_steps := 1\<rparr>) \<and>
   closer_to_point_reward example_config \<noteq> py_num (PyBool True)"
proof -
  have xs: "fst (get_obs example_readings) = 0 # 0 # -1 # 1 # 0 # 0 # 0 # [0, 0, 0, 0, 0, 0]"
    by (simp add: get_obs_def example_readings_def)
  show ?thesis
    by (simp add: compute_reward_Inr [OF xs example_orientation_difference] np_norm_def)
      (simp add: example_config_def example_state_def)
qed

lemma epsilon_not_read [simp]:
  "is_in_desired_pose (cfg\<lparr>desired_pose_epsilon := eps\<rparr>) p e = is_in_desired_pose cfg p e"
  "get_distance_from_desired_point (cfg\<lparr>desired_pose_epsilon := eps\<rparr>) pt =
     get_distance_from_desired_point cfg pt"
  "get_difference_from_desired_orientation lib (cfg\<lparr>desired_pose_epsilon := eps\<rparr>) q =
     get_difference_from_desired_orientation lib cfg q"
  by (simp_all add: is_in_desired_pose_def desired_pose_array_def
      get_distance_from_desired_point_def get_difference_from_desired_orientation_def
      get_difference_between_orientations_def)

text \<open>
  C3. In the terminal case, for an observation with the seven pose components: whenever
  \<open>compute_reward\<close> returns a reward, it is \<open>collision_penalty\<close> if the collision reading
  is set, otherwise \<open>end_episode_points\<close> if the pose passes the goal box test with epsilon
  \<open>0.5\<close>, otherwise \<open>- end_episode_points\<close>; in absolute mode it always returns one; and
  the configured \<open>desired_pose_epsilon\<close> has no influence on the result.
\<close>

theorem terminal_reward_selection:
  assumes "truthy done" and "7 \<le> length (fst observations)"
  shows "\<exists>reached.
     is_in_desired_pose cfg (py_slice 0 7 (fst observations)) (1 / 2) = Inr reached \<and>
     (\<forall>reward st'.
        compute_reward lib cfg st collision_check observations done = Inr (reward, st') \<longrightarrow>
        reward = (if truthy collision_check then collision_penalty cfg
                  else if reached then end_episode_points cfg
                  else - end_episode_points cfg)) \<and>
     (\<not> geo_distance cfg \<longrightarrow>
        (\<exists>reward st'.
           compute_reward lib cfg st collision_check observations done = Inr (reward, st'))) \<and>
     compute_reward lib (cfg\<lparr>desired_pose_epsilon := eps\<rparr>) st collision_check observations done
       = compute_reward lib cfg st collision_check observations done"
proof -
  from assms(2) obtain a b c d e f g r where xs: "fst observations = a # b # c # d # e # f # g # r"
    using length_ge_7 by blast
  let ?q = "\<lparr>q_w = d, q_x = e, q_y = f, q_z = g\<rparr>"
  have eps: "compute_reward lib (cfg\<lparr>desired_pose_epsilon := eps\<rparr>) st collision_check
               observations done
             = compute_reward lib cfg st collision_check observations done"
    by (simp add: compute_reward_def cong: if_cong)
  have ret: "\<exists>reward st'.
      compute_reward lib cfg st collision_check observations done = Inr (reward, st')"
    if "\<not> geo_distance cfg"
  proof -
    from that obtain od where
      "get_difference_from_desired_orientation lib cfg ?q = Inr (Fin od, [])"
      using absolute_orientation_returns by blast
    then show ?thesis
      by (simp add: compute_reward_Inr [OF xs] Let_def)
  qed
  have val: "reward = (if truthy collision_check then collision_penalty cfg
        else if np_all (map2 (\<le>) [a, b, c, d, e, f, g]
                          (map (\<lambda>d. d + 1 / 2) (desired_pose_array cfg))) \<and>
                np_all (map2 (>) [a, b, c, d, e, f, g]
                          (map (\<lambda>d. d - 1 / 2) (desired_pose_array cfg)))
        then end_episode_points cfg else - end_episode_points cfg)"
    if "compute_reward lib cfg st collision_check observations done = Inr (reward, st')"
    for reward st'
  proof (cases "get_difference_from_desired_orientation lib cfg ?q")
    case (Inl err)
    with that show ?thesis
      by (simp add: compute_reward_Inl [OF xs])
  next
    case (Inr p)
    then obtain od logerr where
      "get_difference_from_desired_orientation lib cfg ?q = Inr (od, logerr)"
      by (cases p) simp
    with that assms(1) show ?thesis
      by (auto simp: compute_reward_Inr [OF xs] Let_def)
  qed
  define reached where
    "reached \<longleftrightarrow>
       np_all (map2 (\<le>) [a, b, c, d, e, f, g] (map (\<lambda>d. d + 1 / 2) (desired_pose_array cfg))) \<and>
       np_all (map2 (>) [a, b, c, d, e, f, g] (map (\<lambda>d. d - 1 / 2) (desired_pose_array cfg)))"
  have "is_in_desired_pose cfg (py_slice 0 7 (fst observations)) (1 / 2) = Inr reached"
    by (simp add: xs py_slice_def is_in_desired_pose_7 reached_def)
  with eps ret val [folded reached_def] show ?thesis
    by blast
qed

theorem terminal_reward_selection_witness:
  "truthy (PyBool True) \<and> 7 \<le> length (fst (get_obs example_readings)) \<and>
   \<not> geo_distance example_config \<and>
   (\<exists>st'. compute_reward example_lib example_config example_state (PyBool False)
            (get_obs example_readings) (PyBool True)
          = Inr (- end_episode_points example_config, st'))"
proof -
  have t: "truthy (PyBool True)"
    by simp
  have l: "7 \<le> length (fst (get_obs example_readings))"
    by (simp add: get_obs_def)
  have g: "\<not> geo_distance example_config"
    by (simp add: example_config_def)
  have r: "is_in_desired_pose example_config (py_slice 0 7 (fst (get_obs example_readings)))
             (1 / 2) = Inr False"
    by (simp add: get_obs_def example_readings_def py_slice_def is_in_desired_pose_7
        desired_pose_array_def example_config_def)
  show ?thesis
    using t l g r
      terminal_reward_selection [OF t l, of example_config example_lib example_state
        "PyBool False" 0]
    by auto
qed

section \<open>Steps, resets and episodes\<close>

lemma bind_res_eq_Inr:
  "bind_res m f = Inr y \<longleftrightarrow> (\<exists>x. m = Inr x \<and> f x = Inr y)"
  by (cases m) simp_all

lemma compute_reward_frame:
  assumes "compute_reward lib cfg st cc observations d = Inr (reward, st')"
  shows "cumulated_episode_reward st' = cumulated_episode_reward st \<and>
         episode_num st' = episode_num st \<and>
         cumulated_steps st' = cumulated_steps st + 1 \<and>
         cumulated_reward st' = cumulated_reward st + reward"
  using assms
  by (auto simp: compute_reward_def bind_res_eq_Inr Let_def)

lemma step_frame:
  assumes "step lib cfg st w = Inr ((obs, reward, d), st')"
  shows "cumulated_episode_reward st' = cumulated_episode_reward st + reward \<and>
         episode_num st' = episode_num st \<and>
         cumulated_steps st' = cumulated_steps st + 1"
  using assms
  by (auto simp: step_def bind_res_eq_Inr Let_def dest!: compute_reward_frame)

lemma steps_sum:
  "steps lib cfg st ws = Inr (rs, st') \<Longrightarrow>
     length rs = length ws \<and>
     cumulated_episode_reward st' = cumulated_episode_reward st + sum_list rs"
proof (induction ws arbitrary: st rs)
  case Nil
  then show ?case by simp
next
  case (Cons w ws)
  from Cons.prems obtain obs r d st1 rs1 where
    s: "step lib cfg st w = Inr ((obs, r, d), st1)"
    and t: "steps lib cfg st1 ws = Inr (rs1, st')"
    and rs: "rs = r # rs1"
    by (auto simp: bind_res_eq_Inr)
  from Cons.IH [OF t] step_frame [OF s] rs show ?case
    by simp
qed

lemma is_done_returns:
  assumes "7 \<le> length (fst observations)"
  shows "\<exists>episode_done logerr.
     is_done lib cfg collision_check observations = Inr (episode_done, logerr)"
proof -
  from assms obtain a b c d e f g r where xs: "fst observations = a # b # c # d # e # f # g # r"
    using length_ge_7 by blast
  show ?thesis
    by (simp add: xs is_done_def py_slice_def Let_def is_inside_workspace_3 drone_has_flipped_4
        is_in_desired_pose_7)
qed

lemma compute_reward_returns:
  assumes "\<not> geo_distance cfg" and "7 \<le> length (fst observations)"
  shows "\<exists>reward st'. compute_reward lib cfg st cc observations d = Inr (reward, st')"
proof -
  from assms(2) obtain a b c d e f g r where xs: "fst observations = a # b # c # d # e # f # g # r"
    using length_ge_7 by blast
  from assms(1) obtain od where
    "get_difference_from_desired_orientation lib cfg \<lparr>q_w = d, q_x = e, q_y = f, q_z = g\<rparr>
       = Inr (Fin od, [])"
    using absolute_orientation_returns by blast
  then show ?thesis
    by (simp add: compute_reward_Inr [OF xs] Let_def)
qed

lemma step_returns:
  assumes "\<not> geo_distance cfg"
  shows "\<exists>obs reward d st'. step lib cfg st w = Inr ((obs, reward, d), st')"
proof -
  have l: "7 \<le> length (fst (get_obs w))"
    by (simp add: get_obs_def)
  from is_done_returns [OF l] obtain dn logerr where
    d: "is_done lib cfg (collision_check_is_done w) (get_obs w) = Inr (dn, logerr)"
    by blast
  from compute_reward_returns [OF assms l] obtain reward st1 where
    "compute_reward lib cfg st (collision_check_reward w) (get_obs w) dn = Inr (reward, st1)"
    by blast
  with d show ?thesis
    by (simp add: step_def Let_def)
qed

lemma steps_returns:
  assumes "\<not> geo_distance cfg"
  shows "\<exists>rs st'. steps lib cfg st ws = Inr (rs, st')"
proof (induction ws arbitrary: st)
  case Nil
  then show ?case by simp
next
  case (Cons w ws)
  from step_returns [OF assms] obtain obs reward d st1 where
    s: "step lib cfg st w = Inr ((obs, reward, d), st1)"
    by blast
  from Cons.IH obtain rs st2 where "steps lib cfg st1 ws = Inr (rs, st2)"
    by blast
  with s show ?case
    by simp
qed

lemma reset_frame:
  assumes "reset lib cfg st w_init w_obs = Inr (obs, msg, st')"
  shows "msg = \<lparr>episode_number = episode_num st, episode_reward = cumulated_episode_reward st\<rparr> \<and>
         cumulated_episode_reward st' = 0 \<and>
         episode_num st' = episode_num st + 1 \<and>
         cumulated_reward st' = 0 \<and>
         cumulated_steps st' = cumulated_steps st \<and>
         obs = get_obs w_obs"
  using assms
  by (auto simp: reset_def init_env_variables_def update_episode_def publish_reward_topic_def
      bind_res_eq_Inr Let_def)

lemma reset_returns:
  assumes "\<not> geo_distance cfg"
  shows "\<exists>obs msg st'. reset lib cfg st w_init w_obs = Inr (obs, msg, st')"
proof -
  from assms obtain od where
    "get_difference_from_desired_orientation lib cfg (orientation (pose w_init))
       = Inr (Fin od, [])"
    using absolute_orientation_returns by blast
  then show ?thesis
    by (simp add: reset_def init_env_variables_def update_episode_def Let_def
        get_distance_from_desired_point_value)
qed

lemma is_done_nonneg_floor:
  assumes "0 \<le> work_space_z_min cfg" and "0 \<le> min_height cfg"
    and "7 \<le> length (fst observations)"
  shows "\<exists>episode_done logerr.
     is_done lib cfg collision_check observations = Inr (episode_done, logerr) \<and>
     truthy episode_done"
proof -
  from assms(3) obtain a b c d e f g r where xs: "fst observations = a # b # c # d # e # f # g # r"
    using length_ge_7 by blast
  show ?thesis
    using assms(1,2)
    by (auto simp: xs is_done_def py_slice_def Let_def is_inside_workspace_3 drone_has_flipped_4
        is_in_desired_pose_7 too_close_to_ground_def)
qed

lemma step_done:
  assumes "step lib cfg st w = Inr ((obs, reward, done), st')"
  shows "\<exists>logerr. is_done lib cfg (collision_check_is_done w) (get_obs w) = Inr (done, logerr)"
  using assms
  by (auto simp: step_def Let_def bind_res_def split: sum.splits prod.splits)

text \<open>
  C9. If the lower \<open>z\<close> bound of the workspace and the minimum height are both
  non-negative, \<open>is_done\<close> returns true for every observation and every collision reading,
  and so every step that returns is terminal.
\<close>

theorem nonneg_floor_always_done:
  assumes "0 \<le> work_space_z_min cfg" and "0 \<le> min_height cfg"
    and "7 \<le> length (fst observations)"
  shows "(\<exists>episode_done logerr.
            is_done lib cfg collision_check observations = Inr (episode_done, logerr) \<and>
            truthy episode_done) \<and>
         (\<forall>obs reward done st'.
            step lib cfg st w = Inr ((obs, reward, done), st') \<longrightarrow> truthy done)"
proof -
  have "truthy dn" if "step lib cfg st w = Inr ((obs, reward, dn), st')"
    for obs reward dn st'
  proof -
    have "7 \<le> length (fst (get_obs w))"
      by (simp add: get_obs_def)
    from is_done_nonneg_floor [OF assms(1,2) this, of lib "collision_check_is_done w"]
      step_done [OF that]
    show ?thesis
      by auto
  qed
  with is_done_nonneg_floor [OF assms] show ?thesis
    by blast
qed

theorem nonneg_floor_always_done_witness:
  "0 \<le> work_space_z_min scenario_bounds \<and> 0 \<le> min_height scenario_bounds \<and>
   7 \<le> length (fst (get_obs scenario_readings)) \<and>
   (\<exists>episode_done.
      is_done example_lib scenario_bounds (PyBool False) (get_obs scenario_readings)
        = Inr (episode_done, [''UAV is too_close_to_ground!'']) \<and> truthy episode_done) \<and>
   (\<exists>obs reward episode_done st'.
      step example_lib scenario_bounds example_state scenario_readings
        = Inr ((obs, reward, episode_done), st') \<and> truthy episode_done)"
proof -
  have z: "0 \<le> work_space_z_min scenario_bounds"
    by (simp add: scenario_bounds_def)
  have h: "0 \<le> min_height scenario_bounds"
    by (simp add: scenario_bounds_def example_config_def)
  have l: "7 \<le> length (fst (get_obs scenario_readings))"
    by (simp add: get_obs_def)
  have g: "\<not> geo_distance scenario_bounds"
    by (simp add: scenario_bounds_def example_config_def)
  have d: "\<exists>episode_done.
      is_done example_lib scenario_bounds (PyBool False) (get_obs scenario_readings)
        = Inr (episode_done, [''UAV is too_close_to_ground!''])"
    by (simp add: is_done_def get_obs_def scenario_readings_def example_readings_def
        py_slice_def is_inside_workspace_3 drone_has_flipped_4 is_in_desired_pose_7
        too_close_to_ground_def desired_pose_array_def scenario_bounds_def example_config_def
        example_lib_def)
  show ?thesis
    using z h l d step_returns [OF g, of example_lib example_state scenario_readings]
      nonneg_floor_always_done [OF z h l, of example_lib "PyBool False" example_state
        scenario_readings]
    by fastforce
qed

text \<open>
  C6. A reset that returns publishes the episode number and the cumulated episode reward it
  found, sets the cumulated episode reward to \<open>0\<close> and adds exactly \<open>1\<close> to the episode
  number; after any number of steps from there, the cumulated episode reward is the sum of
  the rewards those steps returned. In absolute mode the reset and the steps always return.
\<close>

theorem episode_reward_bookkeeping:
  "(\<forall>obs msg st0.
      reset lib cfg st w_init w_obs = Inr (obs, msg, st0) \<longrightarrow>
        msg = \<lparr>episode_number = episode_num st,
               episode_reward = cumulated_episode_reward st\<rparr> \<and>
        cumulated_episode_reward st0 = 0 \<and>
        episode_num st0 = episode_num st + 1 \<and>
        (\<forall>rs st1.
           steps lib cfg st0 ws = Inr (rs, st1) \<longrightarrow>
             length rs = length ws \<and> cumulated_episode_reward st1 = sum_list rs)) \<and>
   (\<not> geo_distance cfg \<longrightarrow>
      (\<exists>obs msg st0 rs st1.
         reset lib cfg st w_init w_obs = Inr (obs, msg, st0) \<and>
         steps lib cfg st0 ws = Inr (rs, st1)))"
proof -
  have a: "msg = \<lparr>episode_number = episode_num st,
                  episode_reward = cumulated_episode_reward st\<rparr> \<and>
           cumulated_episode_reward st0 = 0 \<and> episode_num st0 = episode_num st + 1 \<and>
           (\<forall>rs st1. steps lib cfg st0 ws = Inr (rs, st1) \<longrightarrow>
              length rs = length ws \<and> cumulated_episode_reward st1 = sum_list rs)"
    if r: "reset lib cfg st w_init w_obs = Inr (obs, msg, st0)" for obs msg st0
  proof -
    have "length rs = length ws \<and> cumulated_episode_reward st1 = sum_list rs"
      if "steps lib cfg st0 ws = Inr (rs, st1)" for rs st1
      using steps_sum [OF that] reset_frame [OF r] by simp
    with reset_frame [OF r] show ?thesis
      by blast
  qed
  have b: "\<exists>obs msg st0 rs st1.
             reset lib cfg st w_init w_obs = Inr (obs, msg, st0) \<and>
             steps lib cfg st0 ws = Inr (rs, st1)"
    if g: "\<not> geo_distance cfg"
  proof -
    from reset_returns [OF g] obtain obs msg st0 where
      "reset lib cfg st w_init w_obs = Inr (obs, msg, st0)"
      by blast
    with steps_returns [OF g, of lib st0 ws] show ?thesis
      by blast
  qed
  from a b show ?thesis
    by blast
qed

theorem episode_reward_bookkeeping_witness:
  "\<not> geo_distance example_config \<and>
   (\<exists>obs st0 rs st1.
      reset example_lib example_config (example_state\<lparr>cumulated_episode_reward := 7\<rparr>)
        example_readings example_readings
        = Inr (obs, \<lparr>episode_number = 1, episode_reward = 7\<rparr>, st0) \<and>
      cumulated_episode_reward st0 = 0 \<and> episode_num st0 = 2 \<and>
      steps example_lib example_config st0 [example_readings, example_readings] = Inr (rs, st1) \<and>
      length rs = 2 \<and> cumulated_episode_reward st1 = sum_list rs)"
proof -
  have g: "\<not> geo_distance example_config"
    by (simp add: example_config_def)
  show ?thesis
    using g
      episode_reward_bookkeeping [of example_lib example_config
        "example_state\<lparr>cumulated_episode_reward := 7\<rparr>" example_readings example_readings
        "[example_readings, example_readings]"]
    by (fastforce simp: example_state_def)
qed

text \<open>
  C7, as the code has it. A reset that returns leaves \<open>cumulated_reward\<close> at \<open>0\<close> and
  \<open>cumulated_steps\<close> at the value it had before; in absolute mode the reset always returns.
\<close>

theorem reset_zeroes_reward_keeps_steps:
  "(\<forall>obs msg st'.
      reset lib cfg st w_init w_obs = Inr (obs, msg, st') \<longrightarrow>
        cumulated_reward st' = 0 \<and> cumulated_steps st' = cumulated_steps st) \<and>
   (\<not> geo_distance cfg \<longrightarrow>
      (\<exists>obs msg st'. reset lib cfg st w_init w_obs = Inr (obs, msg, st')))"
  using reset_frame [of lib cfg st w_init w_obs] reset_returns [of cfg lib st w_init w_obs]
  by blast

theorem reset_zeroes_reward_keeps_steps_witness:
  "\<not> geo_distance example_config \<and>
   (\<exists>obs msg st'.
      reset example_lib example_config (example_state\<lparr>cumulated_reward := 10, cumulated_steps := 3\<rparr>)
        example_readings example_readings = Inr (obs, msg, st') \<and>
      cumulated_reward st' = 0 \<and> cumulated_steps st' = 3)"
proof -
  have g: "\<not> geo_distance example_config"
    by (simp add: example_config_def)
  show ?thesis
    using g
      reset_zeroes_reward_keeps_steps [of example_lib example_config
        "example_state\<lparr>cumulated_reward := 10, cumulated_steps := 3\<rparr>"
        example_readings example_readings]
    by (fastforce simp: example_state_def)
qed

text \<open>
  C7 as stated fails: after one step and the reset that follows it, \<open>cumulated_steps\<close> is
  \<open>1\<close>, not \<open>0\<close>.
\<close>

theorem reset_keeps_cumulated_steps_counterexample:
  "step example_lib example_config example_state example_readings
     = Inr ((get_obs example_readings, 10, PyBool False),
            \<lparr>episode_num = 1, cumulated_episode_reward = 10, cumulated_reward = 10,
             cumulated_steps = 1, previous_distance_from_des_point = 1,
             previous_difference_from_des_orientation = Fin 0\<rparr>) \<and>
   reset example_lib example_config
     \<lparr>episode_num = 1, cumulated_episode_reward = 10, cumulated_reward = 10,
      cumulated_steps = 1, previous_distance_from_des_point = 1,
      previous_difference_from_des_orientation = Fin 0\<rparr>
     example_readings example_readings
     = Inr (get_obs example_readings, \<lparr>episode_number = 1, episode_reward = 10\<rparr>,
            \<lparr>episode_num = 2, cumulated_episode_reward = 0, cumulated_reward = 0,
             cumulated_steps = 1, previous_distance_from_des_point = 1,
             previous_difference_from_des_orientation = Fin 0\<rparr>)"
proof -
  have xs: "fst (get_obs example_readings) = 0 # 0 # -1 # 1 # 0 # 0 # 0 # [0, 0, 0, 0, 0, 0]"
    by (simp add: get_obs_def example_readings_def)
  have d: "is_done example_lib example_config (PyBool False) (get_obs example_readings)
             = Inr (PyBool False, [])"
    by (simp add: is_done_def get_obs_def example_readings_def py_slice_def
        is_inside_workspace_3 drone_has_flipped_4 is_in_desired_pose_7 too_close_to_ground_def
        desired_pose_array_def example_config_def example_lib_def)
  have c: "compute_reward example_lib example_config example_state (PyBool False)
             (get_obs example_readings) (PyBool False)
           = Inr (10, \<lparr>episode_num = 1, cumulated_episode_reward = 0, cumulated_reward = 10,
                       cumulated_steps = 1, previous_distance_from_des_point = 1,
                       previous_difference_from_des_orientation = Fin 0\<rparr>)"
    by (simp add: compute_reward_Inr [OF xs example_orientation_difference] np_norm_def)
      (simp add: example_config_def example_state_def)
  have s: "step example_lib example_config example_state example_readings
     = Inr ((get_obs example_readings, 10, PyBool False),
            \<lparr>episode_num = 1, cumulated_episode_reward = 10, cumulated_reward = 10,
             cumulated_steps = 1, previous_distance_from_des_point = 1,
             previous_difference_from_des_orientation = Fin 0\<rparr>)"
    using d c by (simp add: step_def Let_def example_readings_def)
  have p: "pose example_readings = \<lparr>position = \<lparr>pt_x = 0, pt_y = 0, pt_z = -1\<rparr>,
              orientation = \<lparr>q_w = 1, q_x = 0, q_y = 0, q_z = 0\<rparr>\<rparr>"
    by (simp add: example_readings_def)
  have r: "reset example_lib example_config
     \<lparr>episode_num = 1, cumulated_episode_reward = 10, cumulated_reward = 10,
      cumulated_steps = 1, previous_distance_from_des_point = 1,
      previous_difference_from_des_orientation = Fin 0\<rparr>
     example_readings example_readings
     = Inr (get_obs example_readings, \<lparr>episode_number = 1, episode_reward = 10\<rparr>,
            \<lparr>episode_num = 2, cumulated_episode_reward = 0, cumulated_reward = 0,
             cumulated_steps = 1, previous_distance_from_des_point = 1,
             previous_difference_from_des_orientation = Fin 0\<rparr>)"
    by (simp add: reset_def init_env_variables_def Let_def p
        get_distance_from_desired_point_value example_orientation_difference
        update_episode_def publish_reward_topic_def np_norm_def)
      (simp add: example_config_def)
  from s r show ?thesis
    by simp
qed

end
